theory Spec2Isabelle
  imports Complex_Main
begin

section \<open>The timers of counters.py\<close>

text \<open>
  The module \<^verbatim>\<open>counters.py\<close> has two classes, \<^verbatim>\<open>CountupTimer\<close> and its subclass
  \<^verbatim>\<open>CountdownTimer\<close>, which overrides the property \<^verbatim>\<open>remaining\<close> only. An object
  has five attributes, all written by \<^verbatim>\<open>__init__\<close>.

  Instants (the values of \<^verbatim>\<open>time.time()\<close>) and durations are modelled as exact real
  numbers: the rounding of Python's floating-point arithmetic is outside the model.
  Every method that reads the clock takes the reading as its first argument \<open>now\<close>.
\<close>

subsection \<open>Data\<close>

record timer =
  time_started :: "real option"   \<comment> \<open>\<^verbatim>\<open>self._time_started\<close>, \<^verbatim>\<open>None\<close> or an instant\<close>
  time_paused :: "real option"    \<comment> \<open>\<^verbatim>\<open>self._time_paused\<close>, \<^verbatim>\<open>None\<close> or an instant\<close>
  elapsed_fld :: real             \<comment> \<open>\<^verbatim>\<open>self._elapsed\<close>, written by \<^verbatim>\<open>__init__\<close> and never read\<close>
  paused_fld :: bool              \<comment> \<open>\<^verbatim>\<open>self._paused\<close>\<close>
  duration_fld :: real            \<comment> \<open>\<^verbatim>\<open>self._duration\<close>\<close>

text \<open>The only exception the methods can raise: a subtraction with \<^verbatim>\<open>None\<close>.\<close>

datatype error = TypeError

text \<open>
  Python's truth value of an attribute that holds \<^verbatim>\<open>None\<close> or a number: \<^verbatim>\<open>None\<close> and
  zero are false, every other number is true. \<^verbatim>\<open>start\<close> and \<^verbatim>\<open>_get\<close> test
  \<^verbatim>\<open>self._time_started\<close> this way, \<^verbatim>\<open>pause\<close> and \<^verbatim>\<open>resume\<close> test \<^verbatim>\<open>is None\<close>.
\<close>

fun truthy :: "real option \<Rightarrow> bool" where
  "truthy None = False"
| "truthy (Some x) = (x \<noteq> 0)"

subsection \<open>Construction and reset\<close>

text \<open>
  \<^verbatim>\<open>__init__(self, duration)\<close> assigns the five attributes of the object it is given.
  \<open>construct_timer\<close> is the constructor call \<^verbatim>\<open>CountupTimer(duration)\<close>: the object a
  fresh instance is after \<^verbatim>\<open>__init__\<close>. \<open>reset\<close> calls \<^verbatim>\<open>__init__\<close> on the
  existing object.
\<close>

definition init :: "real \<Rightarrow> timer \<Rightarrow> timer" where
  "init d t =
     t\<lparr>time_started := None, time_paused := None, elapsed_fld := 0,
       paused_fld := True, duration_fld := d\<rparr>"

definition construct_timer :: "real \<Rightarrow> timer" where
  "construct_timer d =
     \<lparr>time_started = None, time_paused = None, elapsed_fld = 0,
      paused_fld = True, duration_fld = d\<rparr>"

definition reset :: "real \<Rightarrow> timer \<Rightarrow> timer" where
  "reset d t = init d t"

subsection \<open>start, pause, resume\<close>

definition start :: "real \<Rightarrow> timer \<Rightarrow> timer" where
  "start now t =
     (if truthy (time_started t) then t
      else t\<lparr>time_started := Some now, paused_fld := False\<rparr>)"

definition pause :: "real \<Rightarrow> timer \<Rightarrow> timer" where
  "pause now t =
     (if paused_fld t \<or> time_started t = None then t
      else t\<lparr>time_paused := Some now, paused_fld := True\<rparr>)"

text \<open>
  \<^verbatim>\<open>resume\<close> subtracts \<^verbatim>\<open>self._time_paused\<close> from the clock reading: with
  \<^verbatim>\<open>None\<close> there Python raises \<^verbatim>\<open>TypeError\<close>. The difference and the sum are the
  exact ones here; the code rounds each of them to a binary64 number. The concrete
  histories evaluated below use small whole numbers only, on which the two agree.
\<close>

definition resume :: "real \<Rightarrow> timer \<Rightarrow> error + timer" where
  "resume now t =
     (if \<not> paused_fld t \<or> time_started t = None then Inr t
      else (case (time_started t, time_paused t) of
              (Some s, Some p) \<Rightarrow>
                (let pause_duration = now - p
                 in Inr (t\<lparr>time_started := Some (s + pause_duration), paused_fld := False\<rparr>))
            | _ \<Rightarrow> Inl TypeError))"

subsection \<open>Queries\<close>

definition get :: "real \<Rightarrow> timer \<Rightarrow> error + real" where
  "get now t =
     (if \<not> truthy (time_started t) then Inr 0
      else (case time_started t of
              None \<Rightarrow> Inr 0
            | Some s \<Rightarrow>
                if paused_fld t
                then (case time_paused t of None \<Rightarrow> Inl TypeError | Some p \<Rightarrow> Inr (p - s))
                else Inr (now - s)))"

definition paused :: "timer \<Rightarrow> bool" where
  "paused t = paused_fld t"

definition running :: "timer \<Rightarrow> bool" where
  "running t = (\<not> paused_fld t)"

text \<open>\<^verbatim>\<open>got or 0\<close>: a false \<^verbatim>\<open>got\<close> (zero) is replaced by \<^verbatim>\<open>0\<close>.\<close>

definition elapsed :: "real \<Rightarrow> timer \<Rightarrow> error + real" where
  "elapsed now t =
     (case get now t of
        Inl e \<Rightarrow> Inl e
      | Inr got \<Rightarrow> Inr (if got \<noteq> 0 then got else 0))"

definition duration :: "timer \<Rightarrow> real" where
  "duration t = duration_fld t"

definition expired :: "real \<Rightarrow> timer \<Rightarrow> error + bool" where
  "expired now t =
     (case elapsed now t of
        Inl e \<Rightarrow> Inl e
      | Inr el \<Rightarrow> Inr (el \<ge> duration_fld t))"

text \<open>\<^verbatim>\<open>CountupTimer.remaining\<close>.\<close>

definition remaining :: "real \<Rightarrow> timer \<Rightarrow> error + real" where
  "remaining now t =
     (case get now t of
        Inl e \<Rightarrow> Inl e
      | Inr got \<Rightarrow>
          (let time_left = duration_fld t - got
           in Inr (if time_left \<le> duration t then time_left else 0)))"

text \<open>\<^verbatim>\<open>CountdownTimer.remaining\<close>, the one method the subclass overrides.\<close>

definition countdown_remaining :: "real \<Rightarrow> timer \<Rightarrow> error + real" where
  "countdown_remaining now t =
     (case get now t of
        Inl e \<Rightarrow> Inl e
      | Inr got \<Rightarrow>
          (let time_left = duration_fld t - got
           in Inr (max time_left 0)))"

subsection \<open>Histories\<close>

text \<open>
  A history is a list of calls, each with the clock reading it sees. \<open>run\<close> applies them
  in order to a timer and stops at the first exception.
\<close>

datatype op = Start | Pause | Resume | Reset real

fun apply_op :: "real \<Rightarrow> op \<Rightarrow> timer \<Rightarrow> error + timer" where
  "apply_op now Start t = Inr (start now t)"
| "apply_op now Pause t = Inr (pause now t)"
| "apply_op now Resume t = resume now t"
| "apply_op now (Reset d) t = Inr (reset d t)"

fun run :: "(real \<times> op) list \<Rightarrow> timer \<Rightarrow> error + timer" where
  "run [] t = Inr t"
| "run ((now, c) # evs) t =
     (case apply_op now c t of Inl e \<Rightarrow> Inl e | Inr t' \<Rightarrow> run evs t')"

text \<open>
  What every history keeps: a paused timer with a start instant has a pause instant, so
  no subtraction meets \<^verbatim>\<open>None\<close>.
\<close>

definition consistent :: "timer \<Rightarrow> bool" where
  "consistent t = (paused_fld t \<and> time_started t \<noteq> None \<longrightarrow> time_paused t \<noteq> None)"

section \<open>Properties\<close>

subsection \<open>Reset and construction\<close>

lemma init_overwrites: "init d t = construct_timer d"
  by (simp add: init_def construct_timer_def)

lemma construct_fields:
  "time_started (construct_timer d) = None"
  "time_paused (construct_timer d) = None"
  "elapsed_fld (construct_timer d) = 0"
  "paused_fld (construct_timer d)"
  "duration_fld (construct_timer d) = d"
  by (simp_all add: construct_timer_def)

lemma get_construct: "get now (construct_timer d) = Inr 0"
  by (simp add: get_def construct_fields)

text \<open>
  C6. \<^verbatim>\<open>reset(d)\<close> on any timer, whatever its fields hold, gives exactly the timer
  that \<^verbatim>\<open>CountupTimer(d)\<close> constructs: no start instant, no pause instant, paused,
  duration \<open>d\<close>, elapsed time 0 at every clock reading.
\<close>

theorem reset_is_construct:
  "reset d t = construct_timer d
   \<and> time_started (reset d t) = None
   \<and> time_paused (reset d t) = None
   \<and> paused (reset d t)
   \<and> duration (reset d t) = d
   \<and> elapsed now (reset d t) = Inr 0"
proof -
  have eq: "reset d t = construct_timer d"
    by (simp add: reset_def init_overwrites)
  have el: "elapsed now (construct_timer d) = Inr 0"
    by (simp add: elapsed_def get_construct)
  show ?thesis
    unfolding eq using el
    by (simp add: construct_fields paused_def duration_def)
qed

subsection \<open>A fresh timer\<close>

text \<open>
  C9. For every duration \<open>d\<close>, negative ones included (nothing validates it), a
  freshly constructed timer has elapsed time 0, is paused, is not running, has duration
  \<open>d\<close>, and is expired exactly when \<open>0 \<ge> d\<close>.
\<close>

theorem fresh_timer:
  "elapsed now (construct_timer d) = Inr 0
   \<and> paused (construct_timer d)
   \<and> \<not> running (construct_timer d)
   \<and> duration (construct_timer d) = d
   \<and> expired now (construct_timer d) = Inr (0 \<ge> d)"
proof -
  have el: "elapsed now (construct_timer d) = Inr 0"
    by (simp add: elapsed_def get_construct)
  have ex: "expired now (construct_timer d) = Inr (0 \<ge> d)"
    by (simp add: expired_def el construct_fields)
  show ?thesis
    using el ex by (simp add: construct_fields paused_def running_def duration_def)
qed

subsection \<open>The queries on a timer's state\<close>

text \<open>\<^verbatim>\<open>got or 0\<close> changes no number: \<^verbatim>\<open>elapsed\<close> returns what \<^verbatim>\<open>_get\<close> returns.\<close>

lemma elapsed_is_get: "elapsed now t = get now t"
  by (cases "get now t") (simp_all add: elapsed_def)

lemma running_example:
  "get 110 (start 100 (construct_timer 5)) = Inr 10"
  "duration_fld (start 100 (construct_timer 5)) = 5"
  by (simp_all add: get_def start_def construct_fields)

text \<open>
  C3. \<^verbatim>\<open>CountupTimer.remaining\<close> clamps on one side only. At every state and clock
  reading where the elapsed time is defined it returns duration minus elapsed when that
  is at most the duration and 0 when it is more (and it raises where \<^verbatim>\<open>elapsed\<close>
  raises). Nothing clamps it from below: the timer of duration 5 started at instant 100
  has, at instant 110, elapsed time 10, more than its duration, and remaining time -5.
\<close>

theorem countup_remaining_clamp:
  "remaining now t =
     (case elapsed now t of
        Inl e \<Rightarrow> Inl e
      | Inr el \<Rightarrow> Inr (if duration t - el \<le> duration t then duration t - el else 0))
   \<and> elapsed 110 (start 100 (construct_timer 5)) = Inr 10
   \<and> duration (start 100 (construct_timer 5)) < 10
   \<and> remaining 110 (start 100 (construct_timer 5)) = Inr (- 5)"
proof -
  have general: "remaining now t =
     (case elapsed now t of
        Inl e \<Rightarrow> Inl e
      | Inr el \<Rightarrow> Inr (if duration t - el \<le> duration t then duration t - el else 0))"
    unfolding elapsed_is_get
    by (cases "get now t") (simp_all add: remaining_def duration_def Let_def)
  have el: "elapsed 110 (start 100 (construct_timer 5)) = Inr 10"
    by (simp add: elapsed_is_get running_example)
  have du: "duration (start 100 (construct_timer 5)) < 10"
    by (simp add: duration_def running_example)
  have re: "remaining 110 (start 100 (construct_timer 5)) = Inr (- 5)"
    by (simp add: remaining_def duration_def running_example)
  from general el du re show ?thesis by blast
qed

text \<open>
  C4. \<^verbatim>\<open>CountdownTimer.remaining\<close> is never negative. At every state and clock reading
  where the elapsed time is some \<open>el\<close> (of any sign, so also when it is more than the
  duration), it returns the larger of duration minus \<open>el\<close> and 0, which is at least 0.
\<close>

theorem countdown_remaining_nonneg:
  assumes "elapsed now t = Inr el"
  shows "countdown_remaining now t = Inr (max (duration t - el) 0)
         \<and> 0 \<le> max (duration t - el) 0"
  using assms unfolding elapsed_is_get
  by (simp add: countdown_remaining_def duration_def)

theorem countdown_remaining_nonneg_witness:
  "elapsed 110 (start 100 (construct_timer 5)) = Inr 10
   \<and> countdown_remaining 110 (start 100 (construct_timer 5)) = Inr 0"
proof -
  have el: "elapsed 110 (start 100 (construct_timer 5)) = Inr 10"
    by (simp add: elapsed_is_get running_example)
  show ?thesis
    using el countdown_remaining_nonneg [OF el]
    by (simp add: duration_def running_example)
qed

text \<open>
  C10. For a \<^verbatim>\<open>CountdownTimer\<close>, at every state and clock reading, \<^verbatim>\<open>expired\<close> is true
  exactly when \<^verbatim>\<open>remaining\<close> returns 0 (and either query raises exactly where the other
  does).
\<close>

theorem countdown_expired_iff_remaining_zero:
  "expired now t =
     (case countdown_remaining now t of
        Inl e \<Rightarrow> Inl e
      | Inr r \<Rightarrow> Inr (r = 0))"
proof (cases "get now t")
  case (Inl e)
  then show ?thesis
    by (simp add: expired_def elapsed_is_get countdown_remaining_def)
next
  case (Inr got)
  have "(duration_fld t \<le> got) = (max (duration_fld t - got) 0 = 0)"
    by (auto simp: max_def)
  with Inr show ?thesis
    by (simp add: expired_def elapsed_is_get countdown_remaining_def)
qed

subsection \<open>No call raises\<close>

lemma consistent_construct: "consistent (construct_timer d)"
  by (simp add: consistent_def construct_fields)

lemma consistent_start: "consistent t \<Longrightarrow> consistent (start now t)"
  by (simp add: consistent_def start_def)

lemma consistent_pause: "consistent t \<Longrightarrow> consistent (pause now t)"
  by (simp add: consistent_def pause_def)

lemma consistent_reset: "consistent (reset d t)"
  by (simp add: reset_def init_overwrites consistent_construct)

lemma consistent_resume:
  assumes "consistent t"
  shows "\<exists>t'. resume now t = Inr t' \<and> consistent t'"
proof (cases "\<not> paused_fld t \<or> time_started t = None")
  case True
  with assms show ?thesis by (simp add: resume_def)
next
  case False
  with assms obtain s p where "time_started t = Some s" "time_paused t = Some p"
    by (auto simp: consistent_def)
  with False show ?thesis by (simp add: resume_def consistent_def)
qed

lemma consistent_apply_op:
  assumes "consistent t"
  shows "\<exists>t'. apply_op now c t = Inr t' \<and> consistent t'"
proof (cases c)
  case Resume
  with consistent_resume [OF assms] show ?thesis by simp
qed (simp_all add: assms consistent_start consistent_pause consistent_reset)

lemma consistent_run:
  "consistent t \<Longrightarrow> \<exists>t'. run evs t = Inr t' \<and> consistent t'"
proof (induction evs arbitrary: t)
  case Nil
  then show ?case by simp
next
  case (Cons ev evs)
  obtain now c where ev: "ev = (now, c)" by (cases ev)
  from consistent_apply_op [OF Cons.prems] obtain t1
    where t1: "apply_op now c t = Inr t1" "consistent t1" by blast
  from Cons.IH [OF t1(2)] obtain t' where "run evs t1 = Inr t'" "consistent t'" by blast
  with ev t1 show ?case by simp
qed

lemma consistent_get: "consistent t \<Longrightarrow> \<exists>got. get now t = Inr got"
  by (cases "time_started t"; cases "time_paused t") (auto simp: consistent_def get_def)

lemma consistent_queries:
  assumes "consistent t"
  shows "\<exists>el b r r'. elapsed now t = Inr el \<and> expired now t = Inr b
           \<and> remaining now t = Inr r \<and> countdown_remaining now t = Inr r'"
proof -
  from consistent_get [OF assms] obtain got where "get now t = Inr got" by blast
  then show ?thesis
    by (simp add: elapsed_is_get expired_def remaining_def countdown_remaining_def Let_def)
qed

text \<open>
  C8. Calls in a state where they do not apply change nothing and raise nothing:
  \<^verbatim>\<open>pause()\<close> on a timer that is paused or was never started returns the timer as it
  was, and so does \<^verbatim>\<open>resume()\<close> on a timer that is not paused or was never started.
  No call raises: every history of calls from construction, at any clock readings, runs
  to its end, and the four time queries return a value on the timer it leaves.
\<close>

theorem inapplicable_calls_are_noops:
  "(paused t \<or> time_started t = None \<longrightarrow> pause now t = t)
   \<and> (\<not> paused t \<or> time_started t = None \<longrightarrow> resume now t = Inr t)
   \<and> (\<exists>t' el b r r'. run evs (construct_timer d) = Inr t'
         \<and> elapsed now t' = Inr el \<and> expired now t' = Inr b
         \<and> remaining now t' = Inr r \<and> countdown_remaining now t' = Inr r')"
proof -
  have p: "paused t \<or> time_started t = None \<longrightarrow> pause now t = t"
    by (simp add: paused_def pause_def)
  have r: "\<not> paused t \<or> time_started t = None \<longrightarrow> resume now t = Inr t"
    by (simp add: paused_def resume_def)
  from consistent_run [OF consistent_construct] obtain t'
    where t': "run evs (construct_timer d) = Inr t'" "consistent t'" by blast
  from consistent_queries [OF t'(2)] t'(1)
  have q: "\<exists>t' el b r r'. run evs (construct_timer d) = Inr t'
         \<and> elapsed now t' = Inr el \<and> expired now t' = Inr b
         \<and> remaining now t' = Inr r \<and> countdown_remaining now t' = Inr r'"
    by blast
  from p r q show ?thesis by blast
qed

lemma history_example:
  "start 1 (construct_timer 10) =
     \<lparr>time_started = Some 1, time_paused = None, elapsed_fld = 0,
      paused_fld = False, duration_fld = 10\<rparr>"
  "pause 2 (start 1 (construct_timer 10)) =
     \<lparr>time_started = Some 1, time_paused = Some 2, elapsed_fld = 0,
      paused_fld = True, duration_fld = 10\<rparr>"
  by (simp_all add: start_def pause_def construct_timer_def)

theorem inapplicable_calls_are_noops_witness:
  "paused (construct_timer 10)
   \<and> pause 3 (construct_timer 10) = construct_timer 10
   \<and> \<not> paused (start 1 (construct_timer 10))
   \<and> resume 3 (start 1 (construct_timer 10)) = Inr (start 1 (construct_timer 10))"
proof -
  have p0: "paused (construct_timer 10)"
    by (simp add: paused_def construct_fields)
  have p1: "\<not> paused (start 1 (construct_timer 10))"
    by (simp add: paused_def history_example)
  from p0 inapplicable_calls_are_noops [of "construct_timer 10" 3 "[]" 10]
  have a: "pause 3 (construct_timer 10) = construct_timer 10"
    by blast
  from p1 inapplicable_calls_are_noops [of "start 1 (construct_timer 10)" 3 "[]" 10]
  have b: "resume 3 (start 1 (construct_timer 10)) = Inr (start 1 (construct_timer 10))"
    by blast
  from p0 p1 a b show ?thesis by blast
qed

subsection \<open>resume and the pause instant\<close>

lemma paused_history_example:
  "resume 3 (pause 2 (start 1 (construct_timer 10))) =
     Inr \<lparr>time_started = Some 2, time_paused = Some 2, elapsed_fld = 0,
          paused_fld = False, duration_fld = 10\<rparr>"
  by (simp only: history_example(2)) (simp add: resume_def)

text \<open>
  C2, as the code has it. \<^verbatim>\<open>resume()\<close> does not clear the pause instant: on a paused,
  started timer that has a pause instant (as it has after every history of calls) it
  returns without raising, leaves \<^verbatim>\<open>_time_paused\<close> as it was, still present, and leaves
  the timer running with its start instant moved forward by the pause's length. So a
  timer that runs right after a resume has its pause instant set.
\<close>

theorem resume_keeps_pause_instant:
  assumes "paused t" and "time_started t = Some s" and "time_paused t = Some p"
  shows "\<exists>t'. resume now t = Inr t'
           \<and> time_paused t' = Some p
           \<and> running t'
           \<and> time_started t' = Some (s + (now - p))"
  using assms by (simp add: paused_def running_def resume_def)

theorem resume_keeps_pause_instant_witness:
  "paused (pause 2 (start 1 (construct_timer 10)))
   \<and> time_started (pause 2 (start 1 (construct_timer 10))) = Some 1
   \<and> time_paused (pause 2 (start 1 (construct_timer 10))) = Some 2
   \<and> (\<exists>t'. resume 3 (pause 2 (start 1 (construct_timer 10))) = Inr t'
           \<and> time_paused t' = Some 2
           \<and> running t'
           \<and> time_started t' = Some (1 + (3 - 2)))"
proof -
  have a: "paused (pause 2 (start 1 (construct_timer 10)))"
    by (simp add: paused_def history_example(2))
  have b: "time_started (pause 2 (start 1 (construct_timer 10))) = Some 1"
    by (simp add: history_example(2))
  have c: "time_paused (pause 2 (start 1 (construct_timer 10))) = Some 2"
    by (simp add: history_example(2))
  from a b c resume_keeps_pause_instant [OF a b c, of 3] show ?thesis by blast
qed

text \<open>
  C2 as stated fails: after construction with duration 10, \<^verbatim>\<open>start()\<close> at
  instant 1, \<^verbatim>\<open>pause()\<close> at 2 and \<^verbatim>\<open>resume()\<close> at 3, the timer runs and its pause
  instant is still 2.
\<close>

theorem resume_clears_pause_instant_counterexample:
  "paused (pause 2 (start 1 (construct_timer 10)))
   \<and> time_started (pause 2 (start 1 (construct_timer 10))) = Some 1
   \<and> resume 3 (pause 2 (start 1 (construct_timer 10))) =
       Inr \<lparr>time_started = Some 2, time_paused = Some 2, elapsed_fld = 0,
            paused_fld = False, duration_fld = 10\<rparr>
   \<and> time_paused \<lparr>time_started = Some 2, time_paused = Some 2, elapsed_fld = 0,
            paused_fld = False, duration_fld = (10::real)\<rparr> \<noteq> None"
proof -
  have a: "paused (pause 2 (start 1 (construct_timer 10)))"
    by (simp add: paused_def history_example(2))
  have b: "time_started (pause 2 (start 1 (construct_timer 10))) = Some 1"
    by (simp add: history_example(2))
  from a b paused_history_example show ?thesis by simp
qed

subsection \<open>A start instant of zero\<close>

text \<open>
  \<^verbatim>\<open>start\<close> and \<^verbatim>\<open>_get\<close> take a timer for started when \<^verbatim>\<open>_time_started\<close> is true,
  \<^verbatim>\<open>pause\<close> and \<^verbatim>\<open>resume\<close> when it is not \<^verbatim>\<open>None\<close>. The two tests differ on a
  start instant of zero: such a timer is started for \<^verbatim>\<open>pause\<close> and \<^verbatim>\<open>resume\<close>, and
  not started for \<^verbatim>\<open>start\<close>, which starts it again, and for \<^verbatim>\<open>_get\<close>, which returns 0
  at every clock reading.
\<close>

lemma start_noop_when_truthy: "truthy (time_started t) \<Longrightarrow> start now t = t"
  by (simp add: start_def)

lemma start_restarts_zero:
  "time_started t = Some 0 \<Longrightarrow> start now t = t\<lparr>time_started := Some now, paused_fld := False\<rparr>"
  by (simp add: start_def)

lemma get_zero_start: "time_started t = Some 0 \<Longrightarrow> get now t = Inr 0"
  by (simp add: get_def)

lemma zero_history_example:
  "start 0 (construct_timer 10) =
     \<lparr>time_started = Some 0, time_paused = None, elapsed_fld = 0,
      paused_fld = False, duration_fld = 10\<rparr>"
  "pause 1 (start 0 (construct_timer 10)) =
     \<lparr>time_started = Some 0, time_paused = Some 1, elapsed_fld = 0,
      paused_fld = True, duration_fld = 10\<rparr>"
  by (simp_all add: start_def pause_def construct_timer_def)

text \<open>
  C7. \<^verbatim>\<open>start()\<close> is to change no field of a timer whose start instant is present,
  paused or not. The code does not do so at a start instant of zero: the timer
  constructed with duration 10, started when the clock read 0 and paused at 1 has start
  instant 0 and is paused, and \<^verbatim>\<open>start()\<close> at 2 overwrites the start instant with 2 and
  clears the paused flag.
\<close>

theorem start_on_zero_start_instant:
  "time_started (pause 1 (start 0 (construct_timer 10))) = Some 0
   \<and> paused (pause 1 (start 0 (construct_timer 10)))
   \<and> start 2 (pause 1 (start 0 (construct_timer 10))) =
       \<lparr>time_started = Some 2, time_paused = Some 1, elapsed_fld = 0,
        paused_fld = False, duration_fld = 10\<rparr>
   \<and> start 2 (pause 1 (start 0 (construct_timer 10))) \<noteq> pause 1 (start 0 (construct_timer 10))"
proof -
  have a: "time_started (pause 1 (start 0 (construct_timer 10))) = Some 0"
    by (simp add: zero_history_example(2))
  have b: "paused (pause 1 (start 0 (construct_timer 10)))"
    by (simp add: paused_def zero_history_example(2))
  have c: "start 2 (pause 1 (start 0 (construct_timer 10))) =
       \<lparr>time_started = Some 2, time_paused = Some 1, elapsed_fld = 0,
        paused_fld = False, duration_fld = 10\<rparr>"
    by (simp only: zero_history_example(2)) (simp add: start_def)
  have d: "start 2 (pause 1 (start 0 (construct_timer 10))) \<noteq> pause 1 (start 0 (construct_timer 10))"
    unfolding c by (simp add: zero_history_example(2))
  from a b c d show ?thesis by blast
qed

theorem start_on_zero_start_instant_witness:
  "time_started (pause 1 (start 0 (construct_timer 10))) \<noteq> None
   \<and> paused (pause 1 (start 0 (construct_timer 10)))
   \<and> \<not> paused (start 2 (pause 1 (start 0 (construct_timer 10))))
   \<and> time_started (start 2 (pause 1 (start 0 (construct_timer 10)))) = Some 2"
  using start_on_zero_start_instant by (simp add: paused_def)

text \<open>
  C1. A pause is to leave the elapsed time as it was: \<^verbatim>\<open>elapsed\<close> right after
  \<^verbatim>\<open>resume()\<close> equal to \<^verbatim>\<open>elapsed\<close> right before \<^verbatim>\<open>pause()\<close>. The code does not do so
  at a start instant of zero: the timer constructed with duration 10 and started when the
  clock read 0 is running; its elapsed time read at 5 is 0; \<^verbatim>\<open>pause()\<close> at 5 and
  \<^verbatim>\<open>resume()\<close> at 7 move the start instant to 2, and the elapsed time read at 7 is 5.
\<close>

theorem pause_resume_on_zero_start_instant:
  "running (start 0 (construct_timer 10))
   \<and> time_started (start 0 (construct_timer 10)) = Some 0
   \<and> elapsed 5 (start 0 (construct_timer 10)) = Inr 0
   \<and> resume 7 (pause 5 (start 0 (construct_timer 10))) =
       Inr \<lparr>time_started = Some 2, time_paused = Some 5, elapsed_fld = 0,
            paused_fld = False, duration_fld = 10\<rparr>
   \<and> elapsed 7 \<lparr>time_started = Some 2, time_paused = Some 5, elapsed_fld = 0,
            paused_fld = False, duration_fld = 10\<rparr> = Inr 5"
proof -
  have a: "running (start 0 (construct_timer 10))"
    by (simp add: running_def zero_history_example(1))
  have b: "time_started (start 0 (construct_timer 10)) = Some 0"
    by (simp add: zero_history_example(1))
  have c: "elapsed 5 (start 0 (construct_timer 10)) = Inr 0"
    by (simp add: elapsed_is_get get_zero_start [OF b])
  have d: "resume 7 (pause 5 (start 0 (construct_timer 10))) =
       Inr \<lparr>time_started = Some 2, time_paused = Some 5, elapsed_fld = 0,
            paused_fld = False, duration_fld = 10\<rparr>"
    by (simp add: zero_history_example(1) pause_def resume_def)
  have e: "elapsed 7 \<lparr>time_started = Some 2, time_paused = Some 5, elapsed_fld = 0,
            paused_fld = False, duration_fld = 10\<rparr> = Inr 5"
    by (simp add: elapsed_is_get get_def)
  from a b c d e show ?thesis by blast
qed

theorem pause_resume_on_zero_start_instant_witness:
  "\<exists>t'. resume 7 (pause 5 (start 0 (construct_timer 10))) = Inr t'
         \<and> elapsed 7 t' \<noteq> elapsed 5 (start 0 (construct_timer 10))"
  using pause_resume_on_zero_start_instant by simp

text \<open>
  C5. On a timer reached from construction with a non-decreasing clock, \<^verbatim>\<open>elapsed\<close> is
  to return the clock reading minus the start instant while the timer runs. The code
  does not do so at a start instant of zero: the history of one \<^verbatim>\<open>start()\<close> at clock
  reading 0 on the timer constructed with duration 10 leaves it running with start
  instant 0, and \<^verbatim>\<open>elapsed\<close> read at 5 returns 0, not 5 - 0.
\<close>

theorem elapsed_on_zero_start_instant:
  "sorted (map fst [(0::real, Start)] @ [5])
   \<and> run [(0, Start)] (construct_timer 10) =
       Inr \<lparr>time_started = Some 0, time_paused = None, elapsed_fld = 0,
            paused_fld = False, duration_fld = 10\<rparr>
   \<and> running \<lparr>time_started = Some 0, time_paused = None, elapsed_fld = 0,
            paused_fld = False, duration_fld = 10\<rparr>
   \<and> elapsed 5 \<lparr>time_started = Some 0, time_paused = None, elapsed_fld = 0,
            paused_fld = False, duration_fld = 10\<rparr> = Inr 0
   \<and> (0::real) \<noteq> 5 - 0"
proof -
  have a: "sorted (map fst [(0::real, Start)] @ [5])" by simp
  have b: "run [(0, Start)] (construct_timer 10) =
       Inr \<lparr>time_started = Some 0, time_paused = None, elapsed_fld = 0,
            paused_fld = False, duration_fld = 10\<rparr>"
    by (simp add: zero_history_example(1))
  have c: "running \<lparr>time_started = Some 0, time_paused = None, elapsed_fld = 0,
            paused_fld = False, duration_fld = 10\<rparr>"
    by (simp add: running_def)
  have d: "elapsed 5 \<lparr>time_started = Some 0, time_paused = None, elapsed_fld = 0,
            paused_fld = False, duration_fld = 10\<rparr> = Inr 0"
    by (simp add: elapsed_is_get get_zero_start)
  have e: "(0::real) \<noteq> 5 - 0" by simp
  from a b c d e show ?thesis by blast
qed

theorem elapsed_on_zero_start_instant_witness:
  "\<exists>t. run [(0, Start)] (construct_timer 10) = Inr t
        \<and> running t
        \<and> time_started t = Some 0
        \<and> elapsed 5 t \<noteq> Inr (5 - 0)"
  using elapsed_on_zero_start_instant by simp

end
